theory Spec2Isabelle
  imports Complex_Main
begin

section \<open>Numbers\<close>

text \<open>
  The prices, weights, confidences and factors of \<^verbatim>\<open>ensemble_price_predictor.py\<close> are
  Python and NumPy floats. They are modelled as real numbers: the arithmetic below is the
  exact arithmetic that the floating-point operations approximate. The two places where
  NumPy's floating-point division leaves the reals (a division by zero giving
  \<^verbatim>\<open>inf\<close> or \<^verbatim>\<open>nan\<close>) are written out as branches of \<open>agreement_confidence\<close>.
\<close>

definition py_round :: "real \<Rightarrow> nat \<Rightarrow> real" where
  \<comment> \<open>\<^verbatim>\<open>round(x, n)\<close>: to \<open>n\<close> decimals, a tie going to the even neighbour.\<close>
  "py_round x n =
     (let y = x * 10 ^ n; f = \<lfloor>y\<rfloor>; d = y - of_int f
      in (if d < 1 / 2 then of_int f
          else if d > 1 / 2 then of_int (f + 1)
          else if even f then of_int f else of_int (f + 1)) / 10 ^ n)"

definition np_mean :: "real list \<Rightarrow> real" where
  "np_mean xs = sum_list xs / real (length xs)"

definition np_std :: "real list \<Rightarrow> real" where
  \<comment> \<open>\<^verbatim>\<open>np.std\<close>: the population standard deviation.\<close>
  "np_std xs = sqrt (np_mean (map (\<lambda>x. (x - np_mean xs)\<^sup>2) xs))"

section \<open>Data\<close>

text \<open>The dictionaries the predictor passes around, one record per shape.\<close>

record ml_prediction =
  predicted_price :: real
  confidence :: real
  weight :: real
  model_type :: string

record prophet_prediction =
  predicted_price_7d :: "real option"
  predicted_price_14d :: "real option"
  predicted_price_30d :: "real option"
  lower_bound :: "real option"
  upper_bound :: "real option"
  prophet_confidence :: real
  prophet_weight :: real
  prophet_model_type :: string
  historical_data_points :: nat

record sentiment =
  sentiment_score :: real
  hype_score :: real
  sentiment_adjustment_factor :: real
  sample_size :: nat
  sentiment_source :: string
  sentiment_weight :: real
  sentiment_model_type :: string

record trends =
  current_interest :: real
  avg_interest :: real
  trend_direction :: string
  trends_adjustment_factor :: real
  trends_weight :: real
  trends_model_type :: string

text \<open>
  The object parsed from the language model's answer. \<^verbatim>\<open>adjusted_price\<close>,
  \<^verbatim>\<open>confidence\<close>, \<^verbatim>\<open>market_insight\<close> and \<^verbatim>\<open>factors\<close> are read with
  \<^verbatim>\<open>.get\<close> and may be missing; where present, the first two are taken to be numbers.
  \<^verbatim>\<open>get_groq_analysis\<close> always adds \<^verbatim>\<open>weight\<close> and \<^verbatim>\<open>model_type\<close>, so the
  dictionary is never empty and \<^verbatim>\<open>if groq_analysis:\<close> holds exactly when it is not
  \<^verbatim>\<open>None\<close>.
\<close>

record groq_analysis =
  adjusted_price :: "real option"
  groq_confidence :: "real option"
  market_insight :: "string option"
  factors :: "string list option"
  groq_weight :: real
  groq_model_type :: string

datatype breakdown_entry =
    Regression_Entry string string real real real
  | Prophet_Entry string real real real "real option" "real option" "real option"
  | Groq_Entry string real real real string "string list"
  | Sentiment_Entry string real real real string nat
  | Trends_Entry string real real string

record price_range =
  low :: real
  mid :: real
  high :: real

record adjustments =
  sentiment_factor :: real
  trends_factor :: real
  combined_adjustment :: real

record ensemble_result =
  best_predicted_price :: real
  price_range :: price_range
  price_change :: real
  price_change_percent :: real
  overall_confidence :: real
  models_used :: nat
  model_breakdown :: "breakdown_entry list"
  adjustments_applied :: adjustments

section \<open>\<^verbatim>\<open>calculate_ensemble_prediction\<close>\<close>

text \<open>
  \<^verbatim>\<open>model_name.replace('_', ' ').title()\<close> on ASCII names: an underscore becomes a
  blank, a letter that follows a letter is lowered, any other letter is raised.
\<close>

definition is_lower :: "char \<Rightarrow> bool" where
  "is_lower c = (97 \<le> (of_char c :: nat) \<and> (of_char c :: nat) \<le> 122)"

definition is_upper :: "char \<Rightarrow> bool" where
  "is_upper c = (65 \<le> (of_char c :: nat) \<and> (of_char c :: nat) \<le> 90)"

fun title :: "bool \<Rightarrow> string \<Rightarrow> string" where
  "title prev [] = []"
| "title prev (c # cs) =
     (if is_lower c then (if prev then c else char_of ((of_char c :: nat) - 32)) # title True cs
      else if is_upper c then (if prev then char_of ((of_char c :: nat) + 32) else c) # title True cs
      else c # title False cs)"

definition display_name :: "string \<Rightarrow> string" where
  "display_name model_name =
     title False (map (\<lambda>c. if c = CHR ''_'' then CHR '' '' else c) model_name)"

text \<open>
  The list \<^verbatim>\<open>all_predictions\<close> of pairs (price, weight * confidence): one pair for
  each entry of \<^verbatim>\<open>ml_predictions\<close>, in the dictionary's order, then one for the
  time-series prediction when \<^verbatim>\<open>prophet_prediction\<close> is there and its
  \<^verbatim>\<open>predicted_price_30d\<close> is truthy (present and not zero).
\<close>

definition prophet_price :: "prophet_prediction option \<Rightarrow> (real \<times> prophet_prediction) option" where
  "prophet_price prophet =
     (case prophet of
        None \<Rightarrow> None
      | Some pp \<Rightarrow>
          (case predicted_price_30d pp of
             None \<Rightarrow> None
           | Some price \<Rightarrow> if price \<noteq> 0 then Some (price, pp) else None))"

definition all_predictions ::
  "(string \<times> ml_prediction) list \<Rightarrow> prophet_prediction option \<Rightarrow> (real \<times> real) list" where
  "all_predictions ml_predictions prophet =
     map (\<lambda>(model_name, pred). (predicted_price pred, weight pred * confidence pred)) ml_predictions @
     (case prophet_price prophet of
        None \<Rightarrow> []
      | Some (price, pp) \<Rightarrow> [(price, prophet_weight pp * prophet_confidence pp)])"

definition total_weight :: "(real \<times> real) list \<Rightarrow> real" where
  "total_weight aps = sum_list (map snd aps)"

definition ensemble_price :: "(real \<times> real) list \<Rightarrow> real \<Rightarrow> real" where
  "ensemble_price aps retail_price =
     (if total_weight aps > 0
      then sum_list (map (\<lambda>(p, w). p * w) aps) / total_weight aps
      else retail_price * 1.1)"

definition final_price :: "real \<Rightarrow> sentiment \<Rightarrow> trends \<Rightarrow> groq_analysis option \<Rightarrow> real" where
  "final_price base sentiment trends groq =
     (let sentiment_adjusted_price = base * sentiment_adjustment_factor sentiment;
          adjusted = sentiment_adjusted_price * trends_adjustment_factor trends
      in case groq of
           None \<Rightarrow> adjusted
         | Some g \<Rightarrow>
             (let llm_price = (case adjusted_price g of None \<Rightarrow> adjusted | Some a \<Rightarrow> a);
                  llm_confidence = (case groq_confidence g of None \<Rightarrow> 0.5 | Some c \<Rightarrow> c)
              in if llm_confidence > 0.6 then adjusted * 0.9 + llm_price * 0.1 else adjusted))"

definition price_std :: "real list \<Rightarrow> real \<Rightarrow> real" where
  "price_std predictions_list final =
     (if length predictions_list > 1 then np_std predictions_list else final * 0.1)"

text \<open>
  The local \<^verbatim>\<open>overall_confidence\<close>, before it is rounded into the result. With two or
  more prices, \<^verbatim>\<open>cv = price_std / np.mean(predictions_list)\<close> is a NumPy division: for a
  mean of zero it gives \<^verbatim>\<open>inf\<close> (deviation positive), \<^verbatim>\<open>nan\<close> (deviation zero) or
  \<^verbatim>\<open>-inf\<close> instead of raising. \<^verbatim>\<open>1 - inf\<close> ends at the floor 0.6;
  \<^verbatim>\<open>min(0.95, nan)\<close> keeps its first argument, so \<^verbatim>\<open>nan\<close> ends as 0.95, as
  \<^verbatim>\<open>1 + inf\<close> does.
\<close>

definition agreement_confidence :: "real list \<Rightarrow> real \<Rightarrow> real" where
  "agreement_confidence predictions_list std =
     (if length predictions_list > 1
      then (if np_mean predictions_list = 0
            then (if std > 0 then 0.6 else 0.95)
            else (let cv = std / np_mean predictions_list
                  in max 0.6 (min 0.95 (1 - cv))))
      else 0.80)"

definition regression_entries :: "(string \<times> ml_prediction) list \<Rightarrow> breakdown_entry list" where
  "regression_entries ml_predictions =
     map (\<lambda>(model_name, pred).
            Regression_Entry (display_name model_name) (model_type pred)
              (py_round (predicted_price pred) 2) (confidence pred) (weight pred))
         ml_predictions"

definition prophet_entries :: "prophet_prediction option \<Rightarrow> breakdown_entry list" where
  "prophet_entries prophet =
     (case prophet_price prophet of
        None \<Rightarrow> []
      | Some (price, pp) \<Rightarrow>
          [Prophet_Entry (prophet_model_type pp) (py_round price 2)
             (prophet_confidence pp) (prophet_weight pp)
             (predicted_price_7d pp) (predicted_price_14d pp) (predicted_price_30d pp)])"

definition groq_entries :: "groq_analysis option \<Rightarrow> real \<Rightarrow> breakdown_entry list" where
  \<comment> \<open>\<open>adjusted\<close> is the running estimate after the sentiment and trend factors.\<close>
  "groq_entries groq adjusted =
     (case groq of
        None \<Rightarrow> []
      | Some g \<Rightarrow>
          [Groq_Entry (groq_model_type g)
             (py_round (case adjusted_price g of None \<Rightarrow> adjusted | Some a \<Rightarrow> a) 2)
             (case groq_confidence g of None \<Rightarrow> 0.5 | Some c \<Rightarrow> c)
             0.10
             (case market_insight g of None \<Rightarrow> [] | Some s \<Rightarrow> s)
             (case factors g of None \<Rightarrow> [] | Some fs \<Rightarrow> fs)])"

definition calculate_ensemble_prediction ::
  "(string \<times> ml_prediction) list \<Rightarrow> prophet_prediction option \<Rightarrow> sentiment \<Rightarrow> trends \<Rightarrow>
   groq_analysis option \<Rightarrow> real \<Rightarrow> ensemble_result" where
  "calculate_ensemble_prediction ml_predictions prophet sentiment trends groq retail_price =
     (let aps = all_predictions ml_predictions prophet;
          base = ensemble_price aps retail_price;
          adjusted = base * sentiment_adjustment_factor sentiment * trends_adjustment_factor trends;
          final = final_price base sentiment trends groq;
          breakdown =
            regression_entries ml_predictions @ prophet_entries prophet @ groq_entries groq adjusted @
            [Sentiment_Entry (sentiment_model_type sentiment)
               (py_round (sentiment_adjustment_factor sentiment) 3) (hype_score sentiment)
               (py_round (sentiment_score sentiment) 3) (sentiment_source sentiment)
               (sample_size sentiment),
             Trends_Entry (trends_model_type trends)
               (py_round (trends_adjustment_factor trends) 3) (current_interest trends)
               (trend_direction trends)];
          predictions_list = map fst aps;
          std = price_std predictions_list final;
          conf = agreement_confidence predictions_list std;
          change = final - retail_price;
          change_pct = (if retail_price > 0 then (change / retail_price) * 100 else 0)
      in \<lparr> best_predicted_price = py_round final 2,
           price_range = \<lparr> low = py_round (final - std) 2, mid = py_round final 2,
                     high = py_round (final + std) 2 \<rparr>,
           price_change = py_round change 2,
           price_change_percent = py_round change_pct 2,
           overall_confidence = py_round conf 2,
           models_used = length breakdown,
           model_breakdown = breakdown,
           adjustments_applied =
             \<lparr> sentiment_factor = py_round (sentiment_adjustment_factor sentiment) 3,
               trends_factor = py_round (trends_adjustment_factor trends) 3,
               combined_adjustment =
                 py_round (sentiment_adjustment_factor sentiment * trends_adjustment_factor trends) 3 \<rparr> \<rparr>)"

section \<open>\<^verbatim>\<open>get_recommendation\<close>\<close>

text \<open>
  The emoji of a recommendation is one of six fixed pictographs, named here; the two
  confidence notes are kept without their leading pictograph.
\<close>

datatype emoji = Fire | Chart_Increasing | Thumbs_Up | Bar_Chart | Warning_Sign | Cross_Mark

record recommendation =
  action :: string
  emoji :: emoji
  description :: string
  risk_level :: string
  confidence_note :: string

definition get_recommendation :: "real \<Rightarrow> real \<Rightarrow> recommendation" where
  "get_recommendation price_change_pct conf =
     (let note = (if conf < 0.7 then ''Low confidence - limited historical data''
                  else if conf > 0.9 then ''High confidence prediction''
                  else [])
      in if price_change_pct > 75 then
           \<lparr> action = ''STRONG BUY'', emoji = Fire,
             description = ''Exceptional investment - High resale potential'',
             risk_level = ''Low'', confidence_note = note \<rparr>
         else if price_change_pct > 40 then
           \<lparr> action = ''BUY'', emoji = Chart_Increasing,
             description = ''Great investment opportunity'',
             risk_level = ''Low-Medium'', confidence_note = note \<rparr>
         else if price_change_pct > 15 then
           \<lparr> action = ''CONSIDER BUYING'', emoji = Thumbs_Up,
             description = ''Good resale value potential'',
             risk_level = ''Medium'', confidence_note = note \<rparr>
         else if price_change_pct > 0 then
           \<lparr> action = ''HOLD'', emoji = Bar_Chart,
             description = ''Modest appreciation expected'',
             risk_level = ''Medium'', confidence_note = note \<rparr>
         else if price_change_pct > - 15 then
           \<lparr> action = ''CAUTION'', emoji = Warning_Sign,
             description = ''May not appreciate significantly'',
             risk_level = ''Medium-High'', confidence_note = note \<rparr>
         else
           \<lparr> action = ''AVOID'', emoji = Cross_Mark,
             description = ''Expected to depreciate'',
             risk_level = ''High'', confidence_note = note \<rparr>)"

section \<open>The predictor and its regression models\<close>

text \<open>
  A fitted scikit-learn model is a collaborator: it is modelled by what
  \<^verbatim>\<open>predict(features)[0]\<close> gives on the one-row feature matrix, a number or a raised
  exception (\<open>Inl\<close> of its message). The scaler's \<^verbatim>\<open>transform\<close> likewise.
\<close>

type_synonym features = "real list"

type_synonym model = "features \<Rightarrow> string + real"

record predictor =
  models :: "string \<rightharpoonup> model"
  scaler :: "(features \<Rightarrow> string + features) option"
  loaded :: bool

text \<open>
  \<^verbatim>\<open>load_models\<close>: each \<^verbatim>\<open>joblib.load\<close> gives an object or raises (\<open>None\<close>). The two
  tree models, the encoders, the scaler and the metadata are required: the first failure
  among them leaves \<^verbatim>\<open>loaded = False\<close> with what was stored before it. The two linear
  models are optional.
\<close>

record model_files =
  random_forest_model :: "model option"
  gradient_boosting_model :: "model option"
  linear_regression_model :: "model option"
  ridge_regression_model :: "model option"
  encoders_load :: bool
  scaler_file :: "(features \<Rightarrow> string + features) option"
  metadata_load :: bool

definition store :: "string \<Rightarrow> model option \<Rightarrow> (string \<rightharpoonup> model) \<Rightarrow> (string \<rightharpoonup> model)" where
  \<comment> \<open>An optional model: stored when its file loads, skipped otherwise.\<close>
  "store model_name file ms = (case file of None \<Rightarrow> ms | Some m \<Rightarrow> ms(model_name \<mapsto> m))"

definition load_models :: "model_files \<Rightarrow> predictor" where
  "load_models files =
     (case random_forest_model files of
        None \<Rightarrow> \<lparr> models = Map.empty, scaler = None, loaded = False \<rparr>
      | Some rf \<Rightarrow>
          (case gradient_boosting_model files of
             None \<Rightarrow> \<lparr> models = [''random_forest'' \<mapsto> rf], scaler = None, loaded = False \<rparr>
           | Some gb \<Rightarrow>
               (let ms = store ''ridge_regression'' (ridge_regression_model files)
                           (store ''linear_regression'' (linear_regression_model files)
                              [''random_forest'' \<mapsto> rf, ''gradient_boosting'' \<mapsto> gb])
                in if \<not> encoders_load files then \<lparr> models = ms, scaler = None, loaded = False \<rparr>
                   else (case scaler_file files of
                           None \<Rightarrow> \<lparr> models = ms, scaler = None, loaded = False \<rparr>
                         | Some sc \<Rightarrow>
                             \<lparr> models = ms, scaler = Some sc, loaded = metadata_load files \<rparr>))))"

text \<open>
  The request dictionary \<^verbatim>\<open>data\<close>; every key is read with \<^verbatim>\<open>.get\<close> and a default.
  The encoders and the clock are collaborators of \<^verbatim>\<open>prepare_features\<close>: what they give
  for the request is the \<open>feature_context\<close>.
\<close>

record request =
  d_sneaker_name :: "string option"
  d_name :: "string option"
  d_retail_price :: "real option"
  d_brand :: "string option"
  d_release_date :: "string option"
  d_shoe_size :: "real option"
  d_region :: "string option"

record feature_context =
  brand_code :: real
  region_code :: real
  elapsed_days :: int
  release_year :: real
  release_month :: real
  order_month :: real
  order_weekday :: real

definition request_retail_price :: "request \<Rightarrow> real" where
  "request_retail_price d = (case d_retail_price d of None \<Rightarrow> 220 | Some r \<Rightarrow> r)"

definition request_sneaker_name :: "request \<Rightarrow> string" where
  "request_sneaker_name d =
     (case d_sneaker_name d of
        Some s \<Rightarrow> s
      | None \<Rightarrow> (case d_name d of Some s \<Rightarrow> s | None \<Rightarrow> []))"

definition prepare_features :: "request \<Rightarrow> feature_context \<Rightarrow> features" where
  "prepare_features d ctx =
     [brand_code ctx, region_code ctx, request_retail_price d,
      (case d_shoe_size d of None \<Rightarrow> 10 | Some s \<Rightarrow> s),
      of_int (max 0 (elapsed_days ctx)),
      release_year ctx, release_month ctx, order_month ctx, order_weekday ctx]"

definition retail_est :: "features \<Rightarrow> real" where
  "retail_est fs = (if length fs > 2 then fs ! 2 else 200)"

definition tree_prediction ::
  "predictor \<Rightarrow> string \<Rightarrow> real \<Rightarrow> real \<Rightarrow> string \<Rightarrow> features \<Rightarrow>
   string + (string \<times> ml_prediction) list" where
  \<comment> \<open>The random-forest and gradient-boosting blocks: no plausibility test, only \<^verbatim>\<open>max(0, pred)\<close>.\<close>
  "tree_prediction p model_name conf w ty fs =
     (case models p model_name of
        None \<Rightarrow> Inr []
      | Some m \<Rightarrow>
          (case m fs of
             Inl e \<Rightarrow> Inl e
           | Inr v \<Rightarrow>
               Inr [(model_name,
                     \<lparr> predicted_price = max 0 v, confidence = conf, weight = w,
                       model_type = ty \<rparr>)]))"

definition linear_prediction ::
  "predictor \<Rightarrow> string \<Rightarrow> real \<Rightarrow> real \<Rightarrow> string \<Rightarrow> features \<Rightarrow> features \<Rightarrow>
   string + (string \<times> ml_prediction) list" where
  \<comment> \<open>The ridge and linear blocks: kept only when \<^verbatim>\<open>pred > 0 and pred < retail_est * 5\<close>.\<close>
  "linear_prediction p model_name conf w ty fs scaled =
     (case models p model_name of
        None \<Rightarrow> Inr []
      | Some m \<Rightarrow>
          (case m scaled of
             Inl e \<Rightarrow> Inl e
           | Inr v \<Rightarrow>
               Inr (if v > 0 \<and> v < retail_est fs * 5
                    then [(model_name,
                           \<lparr> predicted_price = max 0 v, confidence = conf, weight = w,
                             model_type = ty \<rparr>)]
                    else [])))"

definition linear_predictions :: "predictor \<Rightarrow> features \<Rightarrow> (string \<times> ml_prediction) list" where
  \<comment> \<open>The \<^verbatim>\<open>try\<close> block: an exception ends it, keeping what was stored before.\<close>
  "linear_predictions p fs =
     (case scaler p of
        None \<Rightarrow> []
      | Some sc \<Rightarrow>
          (case sc fs of
             Inl e \<Rightarrow> []
           | Inr scaled \<Rightarrow>
               (case linear_prediction p ''ridge_regression'' 0.75 0.10 ''Regularized Linear'' fs scaled of
                  Inl e \<Rightarrow> []
                | Inr ridge \<Rightarrow>
                    (case linear_prediction p ''linear_regression'' 0.72 0.05 ''Linear Baseline'' fs scaled of
                       Inl e \<Rightarrow> ridge
                     | Inr lr \<Rightarrow> ridge @ lr))))"

definition predict_with_ml_models ::
  "predictor \<Rightarrow> features \<Rightarrow> string + (string \<times> ml_prediction) list" where
  "predict_with_ml_models p fs =
     (case tree_prediction p ''random_forest'' 0.93 0.35 ''Tree-based Ensemble'' fs of
        Inl e \<Rightarrow> Inl e
      | Inr rf \<Rightarrow>
          (case tree_prediction p ''gradient_boosting'' 0.91 0.30 ''Boosted Trees'' fs of
             Inl e \<Rightarrow> Inl e
           | Inr gb \<Rightarrow> Inr (rf @ gb @ linear_predictions p fs)))"

definition emitted :: "string \<Rightarrow> (string \<times> ml_prediction) list \<Rightarrow> bool" where
  \<comment> \<open>\<^verbatim>\<open>model_name in predictions\<close>\<close>
  "emitted model_name preds = (model_name \<in> fst ` set preds)"

definition emitted_price :: "string \<Rightarrow> string + (string \<times> ml_prediction) list \<Rightarrow> real option" where
  "emitted_price model_name res =
     (case res of Inl e \<Rightarrow> None | Inr preds \<Rightarrow> map_option predicted_price (map_of preds model_name))"

section \<open>The time-series adapter\<close>

text \<open>
  What \<^verbatim>\<open>get_sneaker_price_history\<close> gives: an exception, or a dictionary read through
  \<^verbatim>\<open>.get('success')\<close>, \<^verbatim>\<open>.get('forecast')\<close> (a missing or empty list is falsy),
  \<^verbatim>\<open>.get('forecast_model', 'Time Series')\<close> and
  \<^verbatim>\<open>.get('history', {}).get('data_points', 0)\<close>.
\<close>

record forecast_point =
  point_predicted_price :: real
  point_lower_bound :: real
  point_upper_bound :: real

record history_result =
  success :: bool
  forecast :: "forecast_point list"
  forecast_model :: "string option"
  data_points :: "nat option"

datatype history_outcome = History_Raised | History_Result history_result

definition predict_with_prophet :: "string \<Rightarrow> history_outcome \<Rightarrow> prophet_prediction option" where
  "predict_with_prophet sneaker_name outcome =
     (if sneaker_name = [] then None
      else case outcome of
             History_Raised \<Rightarrow> None
           | History_Result h \<Rightarrow>
               if success h \<and> forecast h \<noteq> [] then
                 Some \<lparr> predicted_price_7d =
                          (if length (forecast h) > 6
                           then Some (point_predicted_price (forecast h ! 6)) else None),
                        predicted_price_14d =
                          (if length (forecast h) > 13
                           then Some (point_predicted_price (forecast h ! 13)) else None),
                        predicted_price_30d = Some (point_predicted_price (last (forecast h))),
                        lower_bound = Some (point_lower_bound (last (forecast h))),
                        upper_bound = Some (point_upper_bound (last (forecast h))),
                        prophet_confidence = 0.85,
                        prophet_weight = 0.20,
                        prophet_model_type =
                          (case forecast_model h of None \<Rightarrow> ''Time Series'' | Some m \<Rightarrow> m),
                        historical_data_points =
                          (case data_points h of None \<Rightarrow> 0 | Some n \<Rightarrow> n) \<rparr>
               else None)"

text \<open>
  The sibling adapter \<^verbatim>\<open>get_time_series_forecast\<close> of
  \<^verbatim>\<open>social_price_predictor.py\<close> reads the same history and sets its confidence from the
  number of historical data points.
\<close>

definition get_time_series_forecast_confidence :: "history_result \<Rightarrow> real" where
  "get_time_series_forecast_confidence h =
     (if (case data_points h of None \<Rightarrow> 0 | Some n \<Rightarrow> n) > 30 then 0.85 else 0.70)"

section \<open>The adjustment factors\<close>

text \<open>
  \<^verbatim>\<open>get_sentiment_adjustment\<close>. What its \<^verbatim>\<open>try\<close> block meets: an exception, or the
  posts the scraper found together with the analyser's dictionary, read through
  \<^verbatim>\<open>.get('overall_sentiment', 0)\<close> and \<^verbatim>\<open>.get('hype_score', 50)\<close>.
\<close>

record sentiment_analysis =
  overall_sentiment :: "real option"
  analysis_hype_score :: "real option"

datatype sentiment_outcome = Sentiment_Raised | Sentiment_Posts nat sentiment_analysis

definition default_sentiment :: sentiment where
  "default_sentiment =
     \<lparr> sentiment_score = 0, hype_score = 50, sentiment_adjustment_factor = 1.0, sample_size = 0,
       sentiment_source = ''default'', sentiment_weight = 0.05,
       sentiment_model_type = ''Sentiment Analysis'' \<rparr>"

definition get_sentiment_adjustment :: "sentiment_outcome \<Rightarrow> sentiment" where
  "get_sentiment_adjustment outcome =
     (case outcome of
        Sentiment_Raised \<Rightarrow> default_sentiment
      | Sentiment_Posts n analysis \<Rightarrow>
          if n > 0 then
            (let score = (case overall_sentiment analysis of None \<Rightarrow> 0 | Some s \<Rightarrow> s);
                 hype = (case analysis_hype_score analysis of None \<Rightarrow> 50 | Some h \<Rightarrow> h);
                 adjustment_factor = 1.0 + (score * 0.10)
             in \<lparr> sentiment_score = score, hype_score = hype,
                  sentiment_adjustment_factor = adjustment_factor, sample_size = n,
                  sentiment_source = ''reddit'', sentiment_weight = 0.10,
                  sentiment_model_type = ''Sentiment Analysis'' \<rparr>)
          else default_sentiment)"

text \<open>
  In this repository the class \<^verbatim>\<open>LiveSentimentAnalyzer\<close> of
  \<^verbatim>\<open>live_data_collector.py\<close> defines \<^verbatim>\<open>analyze_text\<close> and
  \<^verbatim>\<open>analyze_reddit_posts\<close> but no \<^verbatim>\<open>analyze_sneaker\<close>: the call
  \<^verbatim>\<open>analyzer.analyze_sneaker(sneaker_name, posts)\<close> raises \<^verbatim>\<open>AttributeError\<close>
  whenever posts were found, and with no posts it is not reached.
\<close>

definition repository_sentiment_outcome :: "nat \<Rightarrow> sentiment_outcome" where
  "repository_sentiment_outcome n_posts =
     (if n_posts > 0 then Sentiment_Raised
      else Sentiment_Posts 0 \<lparr> overall_sentiment = None, analysis_hype_score = None \<rparr>)"

text \<open>
  \<^verbatim>\<open>LiveGoogleTrends.get_live_interest\<close> on the interest series that the trends service
  returned (\<open>Inl\<close>: the service or the lookup raised, and the dictionary holds only the
  keyword and the error).
\<close>

record interest_data =
  interest_current :: "real option"
  interest_avg :: "real option"
  interest_direction :: "string option"

definition get_live_interest :: "string + int list \<Rightarrow> interest_data" where
  "get_live_interest series =
     (case series of
        Inl e \<Rightarrow> \<lparr> interest_current = None, interest_avg = None, interest_direction = None \<rparr>
      | Inr ds \<Rightarrow>
          if ds = [] then
            \<lparr> interest_current = Some 0, interest_avg = Some 0,
              interest_direction = Some ''unknown'' \<rparr>
          else
            (let n = length ds;
                 xs = map real_of_int ds;
                 trend =
                   (if n \<ge> 2 then
                      (let recent = (if n \<ge> 3 then np_mean (drop (n - n div 3) xs) else last xs);
                           earlier = (if n \<ge> 3 then np_mean (take (n div 3) xs) else hd xs)
                       in if recent > earlier * 1.1 then ''rising''
                          else if recent < earlier * 0.9 then ''falling''
                          else ''stable'')
                    else ''unknown'')
             in \<lparr> interest_current = Some (last xs),
                  interest_avg = Some (py_round (np_mean xs) 2),
                  interest_direction = Some trend \<rparr>))"

datatype trends_outcome = Trends_Raised | Trends_Interest interest_data

definition get_trends_adjustment :: "trends_outcome \<Rightarrow> trends" where
  "get_trends_adjustment outcome =
     (case outcome of
        Trends_Raised \<Rightarrow>
          \<lparr> current_interest = 50, avg_interest = 50, trend_direction = ''stable'',
            trends_adjustment_factor = 1.0, trends_weight = 0.02,
            trends_model_type = ''Google Trends'' \<rparr>
      | Trends_Interest i \<Rightarrow>
          (let cur = (case interest_current i of None \<Rightarrow> 50 | Some c \<Rightarrow> c);
               avg = (case interest_avg i of None \<Rightarrow> 50 | Some a \<Rightarrow> a);
               direction = (case interest_direction i of None \<Rightarrow> ''stable'' | Some d \<Rightarrow> d);
               adjustment_factor =
                 (if direction = ''rising'' then 1.0 + (cur - avg) / 200
                  else if direction = ''falling'' then 1.0 - (avg - cur) / 200
                  else 1.0)
           in \<lparr> current_interest = cur, avg_interest = avg, trend_direction = direction,
                trends_adjustment_factor = min 1.2 (max 0.8 adjustment_factor),
                trends_weight = 0.05, trends_model_type = ''Google Trends'' \<rparr>))"

text \<open>
  The sibling \<^verbatim>\<open>get_social_media_data\<close> of \<^verbatim>\<open>social_price_predictor.py\<close> derives its
  trend adjustment from the same interest data (the current interest and the direction) and
  clamps it with \<^verbatim>\<open>max(0.9, min(1.1, trend_adjustment))\<close>.
\<close>

definition social_trend_adjustment :: "real \<Rightarrow> string \<Rightarrow> real" where
  "social_trend_adjustment trend_score direction =
     (let trend_adjustment =
            (if direction = ''rising'' then 1.0 + ((trend_score - 50) / 500)
             else if direction = ''falling'' then 1.0 - ((50 - trend_score) / 500)
             else 1.0)
      in max 0.9 (min 1.1 trend_adjustment))"

section \<open>\<^verbatim>\<open>predict_best_price\<close>\<close>

text \<open>
  What the collaborators return for one request. The response is the failure dictionary
  (\<^verbatim>\<open>success = False\<close> and an error message) or the success dictionary; of the latter the
  \<^verbatim>\<open>metadata\<close> entry (processing time, date, a fixed list of names) is left out.
\<close>

record signals =
  history_signal :: history_outcome
  sentiment_signal :: sentiment_outcome
  trends_signal :: trends_outcome
  groq_signal :: "groq_analysis option"

record input_echo =
  input_sneaker_name :: string
  input_brand :: string
  input_retail_price :: real
  input_release_date :: string
  input_shoe_size :: real
  input_region :: string

record prediction_response =
  input :: input_echo
  prediction :: ensemble_result
  recommended :: recommendation

datatype response = Failure string | Success prediction_response

definition disabled_sentiment :: sentiment where
  "disabled_sentiment =
     \<lparr> sentiment_score = 0, hype_score = 50, sentiment_adjustment_factor = 1.0, sample_size = 0,
       sentiment_source = ''disabled'', sentiment_weight = 0,
       sentiment_model_type = ''Disabled'' \<rparr>"

definition disabled_trends :: trends where
  "disabled_trends =
     \<lparr> current_interest = 50, avg_interest = 50, trend_direction = ''stable'',
       trends_adjustment_factor = 1.0, trends_weight = 0, trends_model_type = ''Disabled'' \<rparr>"

definition predict_best_price ::
  "predictor \<Rightarrow> request \<Rightarrow> feature_context \<Rightarrow> signals \<Rightarrow> bool \<Rightarrow> bool \<Rightarrow> bool \<Rightarrow> response" where
  "predict_best_price p d ctx sig include_sentiment include_trends include_groq =
     (if \<not> loaded p then Failure ''Models not loaded. Run train_model.py first.''
      else
        (let sneaker_name = request_sneaker_name d;
             retail_price = request_retail_price d;
             fs = prepare_features d ctx
         in case predict_with_ml_models p fs of
              Inl e \<Rightarrow> Failure e
            | Inr ml_predictions \<Rightarrow>
                (let prophet = predict_with_prophet sneaker_name (history_signal sig);
                     sentiment =
                       (if include_sentiment then get_sentiment_adjustment (sentiment_signal sig)
                        else disabled_sentiment);
                     trends =
                       (if include_trends then get_trends_adjustment (trends_signal sig)
                        else disabled_trends);
                     groq = (if include_groq then groq_signal sig else None);
                     ensemble =
                       calculate_ensemble_prediction ml_predictions prophet sentiment trends groq
                         retail_price
                 in Success
                      \<lparr> input =
                          \<lparr> input_sneaker_name = sneaker_name,
                            input_brand = (case d_brand d of None \<Rightarrow> ''Yeezy'' | Some b \<Rightarrow> b),
                            input_retail_price = retail_price,
                            input_release_date =
                              (case d_release_date d of None \<Rightarrow> [] | Some r \<Rightarrow> r),
                            input_shoe_size = (case d_shoe_size d of None \<Rightarrow> 10 | Some s \<Rightarrow> s),
                            input_region =
                              (case d_region d of None \<Rightarrow> ''California'' | Some r \<Rightarrow> r) \<rparr>,
                        prediction = ensemble,
                        recommended =
                          get_recommendation (price_change_percent ensemble)
                            (overall_confidence ensemble) \<rparr>)))"

text \<open>What a response carries, for statements about it.\<close>

definition response_price :: "response \<Rightarrow> real option" where
  "response_price r =
     (case r of Failure e \<Rightarrow> None | Success ok \<Rightarrow> Some (best_predicted_price (prediction ok)))"

definition response_factors :: "response \<Rightarrow> (real \<times> real) option" where
  "response_factors r =
     (case r of
        Failure e \<Rightarrow> None
      | Success ok \<Rightarrow>
          Some (sentiment_factor (adjustments_applied (prediction ok)),
                trends_factor (adjustments_applied (prediction ok))))"

text \<open>The candidate price of a model: what its \<^verbatim>\<open>predict\<close> returns when it is loaded.\<close>

definition candidate :: "predictor \<Rightarrow> string \<Rightarrow> features \<Rightarrow> real option" where
  "candidate p model_name fs =
     (case models p model_name of
        None \<Rightarrow> None
      | Some m \<Rightarrow> (case m fs of Inl e \<Rightarrow> None | Inr v \<Rightarrow> Some v))"

definition raises :: "predictor \<Rightarrow> string \<Rightarrow> features \<Rightarrow> bool" where
  "raises p model_name fs =
     (case models p model_name of None \<Rightarrow> False | Some m \<Rightarrow> isl (m fs))"

section \<open>Concrete inputs\<close>

text \<open>
  The scenario of two regression sources priced at 300 and 280 for a retail price of 220,
  the request of the module's own self-test, and collaborators that answer nothing.
\<close>

definition scenario_predictions :: "(string \<times> ml_prediction) list" where
  "scenario_predictions =
     [(''random_forest'',
       \<lparr> predicted_price = 300, confidence = 0.93, weight = 0.35,
         model_type = ''Tree-based Ensemble'' \<rparr>),
      (''gradient_boosting'',
       \<lparr> predicted_price = 280, confidence = 0.91, weight = 0.30,
         model_type = ''Boosted Trees'' \<rparr>)]"

definition constant_model :: "real \<Rightarrow> model" where
  "constant_model v = (\<lambda>fs. Inr v)"

definition identity_scaler :: "features \<Rightarrow> string + features" where
  "identity_scaler = (\<lambda>fs. Inr fs)"

definition example_request :: request where
  "example_request =
     \<lparr> d_sneaker_name = Some ''Adidas Yeezy Boost 350 V2 Beluga'', d_name = None,
       d_retail_price = Some 220, d_brand = Some ''Yeezy'',
       d_release_date = Some ''2023-01-15'', d_shoe_size = Some 10,
       d_region = Some ''California'' \<rparr>"

definition example_context :: feature_context where
  "example_context =
     \<lparr> brand_code = 1, region_code = 4, elapsed_days = 100, release_year = 2023,
       release_month = 1, order_month = 4, order_weekday = 2 \<rparr>"

definition quiet_signals :: signals where
  "quiet_signals =
     \<lparr> history_signal = History_Raised, sentiment_signal = Sentiment_Raised,
       trends_signal = Trends_Raised, groq_signal = None \<rparr>"

definition example_predictor :: predictor where
  "example_predictor =
     load_models
       \<lparr> random_forest_model = Some (constant_model 300),
         gradient_boosting_model = Some (constant_model 280),
         linear_regression_model = None, ridge_regression_model = None,
         encoders_load = True, scaler_file = Some identity_scaler, metadata_load = True \<rparr>"

definition reddit_half_positive :: sentiment_outcome where
  "reddit_half_positive =
     Sentiment_Posts 5 \<lparr> overall_sentiment = Some 0.5, analysis_hype_score = None \<rparr>"

definition interest_slightly_falling :: trends_outcome where
  "interest_slightly_falling =
     Trends_Interest
       \<lparr> interest_current = Some 46, interest_avg = Some 50,
         interest_direction = Some ''falling'' \<rparr>"

definition confident_llm :: groq_analysis where
  "confident_llm =
     \<lparr> adjusted_price = Some 400, groq_confidence = Some 0.8, market_insight = None,
       factors = None, groq_weight = 0.10, groq_model_type = ''LLM Market Analysis'' \<rparr>"

text \<open>
  A predictor whose tree models answer 1500 and -5 for a retail price of 220, whose ridge
  model answers exactly 5 * 220 and whose linear model answers 4.999 * 220.
\<close>

definition overpriced_predictor :: predictor where
  "overpriced_predictor =
     load_models
       \<lparr> random_forest_model = Some (constant_model 1500),
         gradient_boosting_model = Some (constant_model (- 5)),
         linear_regression_model = Some (constant_model 1099.78),
         ridge_regression_model = Some (constant_model 1100),
         encoders_load = True, scaler_file = Some identity_scaler, metadata_load = True \<rparr>"

definition overpriced_predictions :: "(string \<times> ml_prediction) list" where
  "overpriced_predictions =
     [(''random_forest'',
       \<lparr> predicted_price = 1500, confidence = 0.93, weight = 0.35,
         model_type = ''Tree-based Ensemble'' \<rparr>),
      (''gradient_boosting'',
       \<lparr> predicted_price = 0, confidence = 0.91, weight = 0.30,
         model_type = ''Boosted Trees'' \<rparr>),
      (''linear_regression'',
       \<lparr> predicted_price = 1099.78, confidence = 0.72, weight = 0.05,
         model_type = ''Linear Baseline'' \<rparr>)]"

text \<open>
  The model files when none can be read, and a predictor whose random forest raises.
\<close>

definition missing_files :: model_files where
  "missing_files =
     \<lparr> random_forest_model = None, gradient_boosting_model = None,
       linear_regression_model = None, ridge_regression_model = None,
       encoders_load = False, scaler_file = None, metadata_load = False \<rparr>"

definition failing_predictor :: predictor where
  "failing_predictor =
     load_models
       \<lparr> random_forest_model = Some (\<lambda>fs. Inl ''X has 9 features, but the model expects 8''),
         gradient_boosting_model = Some (constant_model 280),
         linear_regression_model = None, ridge_regression_model = None,
         encoders_load = True, scaler_file = Some identity_scaler, metadata_load = True \<rparr>"

text \<open>
  An interest series that ends in a surge, a price history of ten data points with a
  thirty-day forecast, and a single regression source of weight and confidence 1.
\<close>

definition interest_surge :: "int list" where
  "interest_surge = [10, 10, 100]"

definition thin_history :: history_result where
  "thin_history =
     \<lparr> success = True,
       forecast = replicate 30 \<lparr> point_predicted_price = 250, point_lower_bound = 230,
                                 point_upper_bound = 270 \<rparr>,
       forecast_model = Some ''Linear Trend'',
       data_points = Some 10 \<rparr>"

definition thin_forecast :: prophet_prediction where
  \<comment> \<open>What \<^verbatim>\<open>predict_with_prophet\<close> makes of \<open>thin_history\<close>.\<close>
  "thin_forecast =
     \<lparr> predicted_price_7d = Some 250, predicted_price_14d = Some 250,
       predicted_price_30d = Some 250, lower_bound = Some 230, upper_bound = Some 270,
       prophet_confidence = 0.85, prophet_weight = 0.20, prophet_model_type = ''Linear Trend'',
       historical_data_points = 10 \<rparr>"

definition single_source :: ml_prediction where
  "single_source =
     \<lparr> predicted_price = 300, confidence = 1, weight = 1, model_type = ''Tree-based Ensemble'' \<rparr>"

section \<open>The weighted base estimate\<close>

lemma thin_history_forecast:
  "predict_with_prophet ''Adidas Yeezy Boost 350 V2 Beluga'' (History_Result thin_history) =
     Some thin_forecast"
  by (simp add: predict_with_prophet_def thin_history_def thin_forecast_def)



section \<open>The recommendation tiers\<close>

text \<open>
  C3, as the code has it. The classifier is a total function of price_change_percent and
  its six tiers (STRONG BUY, BUY, CONSIDER BUYING, HOLD, CAUTION, AVOID) partition the real
  line: every input has exactly one tier. The bands are half-open intervals that exclude
  their lower bound and include their upper bound: above 75, (40, 75], (15, 40], (0, 15],
  (-15, 0], and at most -15. Each boundary value 75, 40, 15, 0, -15 resolves to the tier
  below it: BUY, CONSIDER BUYING, HOLD, CAUTION, AVOID.
\<close>

theorem recommendation_tiers:
  "(action (get_recommendation x c) = ''STRONG BUY'' \<longleftrightarrow> 75 < x)
   \<and> (action (get_recommendation x c) = ''BUY'' \<longleftrightarrow> 40 < x \<and> x \<le> 75)
   \<and> (action (get_recommendation x c) = ''CONSIDER BUYING'' \<longleftrightarrow> 15 < x \<and> x \<le> 40)
   \<and> (action (get_recommendation x c) = ''HOLD'' \<longleftrightarrow> 0 < x \<and> x \<le> 15)
   \<and> (action (get_recommendation x c) = ''CAUTION'' \<longleftrightarrow> - 15 < x \<and> x \<le> 0)
   \<and> (action (get_recommendation x c) = ''AVOID'' \<longleftrightarrow> x \<le> - 15)
   \<and> action (get_recommendation 75 c) = ''BUY''
   \<and> action (get_recommendation 40 c) = ''CONSIDER BUYING''
   \<and> action (get_recommendation 15 c) = ''HOLD''
   \<and> action (get_recommendation 0 c) = ''CAUTION''
   \<and> action (get_recommendation (- 15) c) = ''AVOID''"
  by (simp add: get_recommendation_def Let_def)

theorem recommendation_tiers_witness:
  "action (get_recommendation 32.18 0.95) = ''CONSIDER BUYING''
   \<and> action (get_recommendation 75 0.95) = ''BUY''"
  using recommendation_tiers [of "32.18" "0.95"]
  by simp

text \<open>
  The band of BUY does not hold its lower bound: at 40 the tier is CONSIDER BUYING.
\<close>

theorem recommendation_lower_bound_counterexample:
  "action (get_recommendation 40 0.8) = ''CONSIDER BUYING''
   \<and> action (get_recommendation 40 0.8) \<noteq> ''BUY''"
  by (simp add: get_recommendation_def Let_def)

section \<open>The confidence score\<close>

lemma py_round_between:
  assumes "0.6 \<le> x" and "x \<le> 0.95"
  shows "0.6 \<le> py_round x 2 \<and> py_round x 2 \<le> 0.95"
proof -
  define y where "y = x * 100"
  define f where "f = \<lfloor>y\<rfloor>"
  have y: "60 \<le> y" "y \<le> 95"
    using assms by (simp_all add: y_def)
  have f: "60 \<le> f" "f \<le> 95"
    using y by (simp_all add: f_def le_floor_iff floor_le_iff)
  have up: "f + 1 \<le> 95" if "1 / 2 \<le> y - of_int f"
  proof -
    have "of_int f + 1 / 2 \<le> y" using that by simp
    then have "of_int f < (95::real)" using y by linarith
    then show ?thesis by simp
  qed
  define r where "r = (if y - of_int f < 1 / 2 then f
          else if y - of_int f > 1 / 2 then f + 1
          else if even f then f else f + 1)"
  have r: "60 \<le> r" "r \<le> 95"
    using f up by (auto simp add: r_def)
  have "py_round x 2 = of_int r / 100"
    by (simp add: py_round_def Let_def y_def f_def r_def)
  moreover have "(60::real) \<le> of_int r" "of_int r \<le> (95::real)"
    using r by simp_all
  ultimately show ?thesis
    by simp
qed

lemma agreement_confidence_bounds:
  "0.6 \<le> agreement_confidence xs sd \<and> agreement_confidence xs sd \<le> 0.95"
  by (simp add: agreement_confidence_def Let_def max_def min_def)

lemma sqrt_100: "sqrt 100 = 10"
  by (rule real_sqrt_unique) simp_all

lemma sqrt_2500: "sqrt 2500 = 50"
  by (rule real_sqrt_unique) simp_all

text \<open>
  C5. The confidence computed from the agreement of the price sources lies in [0.6, 0.95]
  for every input, and so does the overall_confidence of the result, which is that value
  rounded to two decimals. With two or more price sources (and a mean other than zero, so
  that cv = std / mean is a number) it is clamp(1 - cv, 0.6, 0.95) with std the population
  deviation of the candidate prices; for a mean of zero it is the floor 0.6 when the
  deviation is positive and the ceiling 0.95 when it is zero. With fewer than two price
  sources it is exactly 0.80.
\<close>

theorem overall_confidence_range:
  "0.6 \<le> agreement_confidence xs sd \<and> agreement_confidence xs sd \<le> 0.95
   \<and> overall_confidence (calculate_ensemble_prediction ml prophet s t g retail) =
       py_round (agreement_confidence (map fst (all_predictions ml prophet))
                   (price_std (map fst (all_predictions ml prophet))
                      (final_price (ensemble_price (all_predictions ml prophet) retail) s t g))) 2
   \<and> 0.6 \<le> overall_confidence (calculate_ensemble_prediction ml prophet s t g retail)
   \<and> overall_confidence (calculate_ensemble_prediction ml prophet s t g retail) \<le> 0.95
   \<and> (2 \<le> length xs \<and> np_mean xs \<noteq> 0 \<longrightarrow>
        agreement_confidence xs (price_std xs final) =
          max 0.6 (min 0.95 (1 - np_std xs / np_mean xs)))
   \<and> (2 \<le> length xs \<and> np_mean xs = 0 \<longrightarrow>
        agreement_confidence xs (price_std xs final) = (if 0 < np_std xs then 0.6 else 0.95))
   \<and> (length xs < 2 \<longrightarrow> agreement_confidence xs sd = 0.80)
   \<and> (length (all_predictions ml prophet) < 2 \<longrightarrow>
        overall_confidence (calculate_ensemble_prediction ml prophet s t g retail) = 0.80)"
proof -
  have field: "overall_confidence (calculate_ensemble_prediction ml prophet s t g retail) =
       py_round (agreement_confidence (map fst (all_predictions ml prophet))
                   (price_std (map fst (all_predictions ml prophet))
                      (final_price (ensemble_price (all_predictions ml prophet) retail) s t g))) 2"
    by (simp add: calculate_ensemble_prediction_def Let_def)
  have rounded: "0.6 \<le> overall_confidence (calculate_ensemble_prediction ml prophet s t g retail)
     \<and> overall_confidence (calculate_ensemble_prediction ml prophet s t g retail) \<le> 0.95"
    unfolding field using agreement_confidence_bounds by (intro py_round_between) auto
  have several: "agreement_confidence xs (price_std xs final) =
          max 0.6 (min 0.95 (1 - np_std xs / np_mean xs))"
    if "2 \<le> length xs" "np_mean xs \<noteq> 0"
    using that by (simp add: agreement_confidence_def price_std_def Let_def)
  have zero_mean: "agreement_confidence xs (price_std xs final) =
          (if 0 < np_std xs then 0.6 else 0.95)"
    if "2 \<le> length xs" "np_mean xs = 0"
    using that by (simp add: agreement_confidence_def price_std_def)
  have few: "agreement_confidence xs sd = 0.80" if "length xs < 2"
    using that by (simp add: agreement_confidence_def)
  have few_field: "overall_confidence (calculate_ensemble_prediction ml prophet s t g retail) = 0.80"
    if "length (all_predictions ml prophet) < 2"
    unfolding field using that by (simp add: agreement_confidence_def py_round_def Let_def)
  show ?thesis
    using agreement_confidence_bounds field rounded several zero_mean few few_field by blast
qed

theorem overall_confidence_range_witness:
  "agreement_confidence [200, 300] (price_std [200, 300] 250) = 0.8
   \<and> agreement_confidence [300, 280] (price_std [300, 280] 290) = 0.95
   \<and> agreement_confidence [0, 0] (price_std [0, 0] 0) = 0.95
   \<and> agreement_confidence [242] (price_std [242] 242) = 0.8
   \<and> overall_confidence
        (calculate_ensemble_prediction [] None default_sentiment disabled_trends None 220) = 0.8"
  using
    overall_confidence_range [of "[200, 300]" "price_std [200, 300] 250" "[]" None
      default_sentiment disabled_trends None 220 250]
    overall_confidence_range [of "[300, 280]" "price_std [300, 280] 290" "[]" None
      default_sentiment disabled_trends None 220 290]
    overall_confidence_range [of "[0, 0]" "price_std [0, 0] 0" "[]" None
      default_sentiment disabled_trends None 220 0]
    overall_confidence_range [of "[242]" "price_std [242] 242" "[]" None
      default_sentiment disabled_trends None 220 242]
  by (simp add: np_mean_def np_std_def sqrt_2500 sqrt_100 all_predictions_def prophet_price_def)

section \<open>The order of the adjustments\<close>

text \<open>
  C6. The adjustments are applied to the base estimate in the order sentiment, trend,
  language model. The sentiment factor and then the trend factor multiply the running
  estimate, so that a base of 300 with factors 1.05 and 0.98 gives 308.7. The language
  model's price is blended last, and only when its confidence is above 0.6: the running
  estimate becomes 0.9 * running estimate + 0.1 * llm_price.
\<close>

theorem adjustments_in_order:
  "final_price base s t None = base * sentiment_adjustment_factor s * trends_adjustment_factor t
   \<and> final_price base s t (Some g) =
       (if 0.6 < (case groq_confidence g of None \<Rightarrow> 0.5 | Some c \<Rightarrow> c)
        then 0.9 * (base * sentiment_adjustment_factor s * trends_adjustment_factor t)
             + 0.1 * (case adjusted_price g of
                        None \<Rightarrow> base * sentiment_adjustment_factor s * trends_adjustment_factor t
                      | Some a \<Rightarrow> a)
        else base * sentiment_adjustment_factor s * trends_adjustment_factor t)
   \<and> (sentiment_adjustment_factor s = 1.05 \<and> trends_adjustment_factor t = 0.98 \<longrightarrow>
        final_price 300 s t None = 308.7)
   \<and> best_predicted_price (calculate_ensemble_prediction ml prophet s t llm retail) =
       py_round (final_price (ensemble_price (all_predictions ml prophet) retail) s t llm) 2"
proof -
  have scenario: "final_price 300 s t None = 308.7"
    if "sentiment_adjustment_factor s = 1.05" and "trends_adjustment_factor t = 0.98"
  proof -
    have "final_price 300 s t None =
            300 * sentiment_adjustment_factor s * trends_adjustment_factor t"
      by (simp add: final_price_def)
    also have "\<dots> = 300 * 1.05 * 0.98"
      by (simp only: that)
    also have "\<dots> = 308.7"
      by simp
    finally show ?thesis .
  qed
  have result: "best_predicted_price (calculate_ensemble_prediction ml prophet s t llm retail) =
       py_round (final_price (ensemble_price (all_predictions ml prophet) retail) s t llm) 2"
    by (simp add: calculate_ensemble_prediction_def Let_def)
  show ?thesis
    using scenario result by (simp add: final_price_def Let_def split: option.splits)
qed

theorem adjustments_in_order_witness:
  "sentiment_adjustment_factor (get_sentiment_adjustment reddit_half_positive) = 1.05
   \<and> trends_adjustment_factor (get_trends_adjustment interest_slightly_falling) = 0.98
   \<and> final_price 300 (get_sentiment_adjustment reddit_half_positive)
        (get_trends_adjustment interest_slightly_falling) None = 308.7
   \<and> final_price 300 (get_sentiment_adjustment reddit_half_positive)
        (get_trends_adjustment interest_slightly_falling) (Some confident_llm) = 317.83"
  using
    adjustments_in_order [of 300 "get_sentiment_adjustment reddit_half_positive"
      "get_trends_adjustment interest_slightly_falling" confident_llm]
  by (simp add: get_sentiment_adjustment_def reddit_half_positive_def
      get_trends_adjustment_def interest_slightly_falling_def confident_llm_def Let_def)

section \<open>Disabled signals\<close>

lemma example_predictor_loaded: "loaded example_predictor"
  by (simp add: example_predictor_def load_models_def store_def Let_def)

lemma example_predictor_predictions:
  "predict_with_ml_models example_predictor (prepare_features example_request example_context) =
     Inr scenario_predictions"
  by (simp add: predict_with_ml_models_def example_predictor_def load_models_def store_def
      tree_prediction_def linear_predictions_def linear_prediction_def constant_model_def
      identity_scaler_def scenario_predictions_def Let_def)

text \<open>
  C10. With include_sentiment and include_trends false and the language model disabled or
  without an answer, a request that the regression stage does not abort succeeds, its
  sentiment and trend factors are exactly 1, nothing is blended in, and its point estimate
  is the base weighted ensemble estimate (rounded to two decimals, as every point estimate
  of a result is).
\<close>

theorem disabled_signals_identity:
  assumes "loaded p" and "predict_with_ml_models p (prepare_features d ctx) = Inr ml"
    and "\<not> include_groq \<or> groq_signal sig = None"
  shows "response_factors (predict_best_price p d ctx sig False False include_groq) = Some (1, 1)
    \<and> response_price (predict_best_price p d ctx sig False False include_groq) =
        Some (py_round
               (ensemble_price
                  (all_predictions ml
                     (predict_with_prophet (request_sneaker_name d) (history_signal sig)))
                  (request_retail_price d)) 2)
    \<and> final_price base disabled_sentiment disabled_trends None = base"
  using assms
  by (auto simp add: predict_best_price_def response_factors_def response_price_def Let_def
      calculate_ensemble_prediction_def final_price_def disabled_sentiment_def
      disabled_trends_def py_round_def)

theorem disabled_signals_identity_witness:
  "response_price
     (predict_best_price example_predictor example_request example_context quiet_signals
        False False False) = Some 290.88
   \<and> response_factors
     (predict_best_price example_predictor example_request example_context quiet_signals
        False False False) = Some (1, 1)"
  using
    disabled_signals_identity [OF example_predictor_loaded example_predictor_predictions,
      of False quiet_signals]
  by (simp add: quiet_signals_def example_request_def request_sneaker_name_def
      predict_with_prophet_def all_predictions_def scenario_predictions_def prophet_price_def
      ensemble_price_def total_weight_def request_retail_price_def py_round_def Let_def)

section \<open>Weighted-average convexity\<close>

lemma weighted_sum_bounds:
  fixes aps :: "(real \<times> real) list"
  assumes "\<forall>(p, w) \<in> set aps. lo \<le> p \<and> p \<le> hi \<and> 0 \<le> w"
  shows "lo * sum_list (map snd aps) \<le> (\<Sum>(p, w) \<leftarrow> aps. p * w)
       \<and> (\<Sum>(p, w) \<leftarrow> aps. p * w) \<le> hi * sum_list (map snd aps)"
  using assms
proof (induction aps)
  case Nil
  then show ?case by simp
next
  case (Cons a aps)
  obtain p w where a: "a = (p, w)" by (cases a)
  from Cons.prems a have pw: "lo \<le> p" "p \<le> hi" "0 \<le> w" by auto
  from Cons have ih: "lo * sum_list (map snd aps) \<le> (\<Sum>(p, w) \<leftarrow> aps. p * w)"
      "(\<Sum>(p, w) \<leftarrow> aps. p * w) \<le> hi * sum_list (map snd aps)"
    by auto
  have "lo * w \<le> p * w" "p * w \<le> hi * w"
    using pw by (simp_all add: mult_right_mono)
  then show ?case
    using ih by (simp add: a algebra_simps)
qed

lemma ensemble_price_between:
  assumes "\<forall>(p, w) \<in> set aps. lo \<le> p \<and> p \<le> hi \<and> 0 \<le> w" and "0 < total_weight aps"
  shows "lo \<le> ensemble_price aps retail \<and> ensemble_price aps retail \<le> hi"
proof -
  have b: "lo * total_weight aps \<le> (\<Sum>(p, w) \<leftarrow> aps. p * w)"
     "(\<Sum>(p, w) \<leftarrow> aps. p * w) \<le> hi * total_weight aps"
    using weighted_sum_bounds [OF assms(1)] by (simp_all add: total_weight_def)
  show ?thesis
    using b assms(2) by (simp add: ensemble_price_def pos_le_divide_eq pos_divide_le_eq)
qed

lemma total_weight_positive:
  assumes "aps \<noteq> []" and "\<forall>(p, w) \<in> set aps. 0 < w"
  shows "0 < total_weight aps"
  using assms
proof (induction aps)
  case Nil
  then show ?case by simp
next
  case (Cons a aps)
  obtain p w where a: "a = (p, w)" by (cases a)
  show ?case
  proof (cases "aps = []")
    case True
    then show ?thesis using Cons.prems a by (simp add: total_weight_def)
  next
    case False
    then have "0 < total_weight aps" using Cons by auto
    then show ?thesis using Cons.prems a by (simp add: total_weight_def)
  qed
qed

lemma all_predictions_positive:
  assumes "\<forall>(model_name, pred) \<in> set ml. 0 < weight pred \<and> 0 < confidence pred"
    and "\<forall>pp. prophet = Some pp \<longrightarrow> 0 < prophet_weight pp \<and> 0 < prophet_confidence pp"
  shows "\<forall>(p, w) \<in> set (all_predictions ml prophet). 0 < w"
  using assms
  by (auto simp add: all_predictions_def prophet_price_def split: option.splits if_splits)

text \<open>
  C8. For every non-empty list of price-bearing sources whose weights and confidences are
  positive, the base estimate lies between the least and the greatest of their prices. A
  single regression source of weight 1 and confidence 1 gives its own price as the base
  estimate, and so does a single time-series source of weight 1 and confidence 1.
\<close>

theorem base_estimate_convex:
  assumes "all_predictions ml prophet \<noteq> []"
    and "\<forall>(model_name, pred) \<in> set ml. 0 < weight pred \<and> 0 < confidence pred"
    and "\<forall>pp. prophet = Some pp \<longrightarrow> 0 < prophet_weight pp \<and> 0 < prophet_confidence pp"
  shows "Min (fst ` set (all_predictions ml prophet)) \<le>
           ensemble_price (all_predictions ml prophet) retail
    \<and> ensemble_price (all_predictions ml prophet) retail \<le>
           Max (fst ` set (all_predictions ml prophet))
    \<and> (weight one = 1 \<and> confidence one = 1 \<longrightarrow>
         ensemble_price (all_predictions [(model_name, one)] None) retail = predicted_price one)
    \<and> (prophet_price (Some ts) = Some (price, ts)
         \<and> prophet_weight ts = 1 \<and> prophet_confidence ts = 1 \<longrightarrow>
         ensemble_price (all_predictions [] (Some ts)) retail = price)"
proof -
  let ?aps = "all_predictions ml prophet"
  have pos: "\<forall>(p, w) \<in> set ?aps. 0 < w"
    using all_predictions_positive [OF assms(2,3)] .
  have tw: "0 < total_weight ?aps"
    using total_weight_positive [OF assms(1) pos] .
  have "\<forall>(p, w) \<in> set ?aps. Min (fst ` set ?aps) \<le> p \<and> p \<le> Max (fst ` set ?aps) \<and> 0 \<le> w"
    using pos by (force intro: Min_le Max_ge)
  from ensemble_price_between [OF this tw]
  have between: "Min (fst ` set ?aps) \<le> ensemble_price ?aps retail
    \<and> ensemble_price ?aps retail \<le> Max (fst ` set ?aps)" .
  have single: "ensemble_price (all_predictions [(model_name, one)] None) retail = predicted_price one"
    if "weight one = 1" "confidence one = 1"
    using that
    by (simp add: all_predictions_def prophet_price_def ensemble_price_def total_weight_def)
  have single_ts: "ensemble_price (all_predictions [] (Some ts)) retail = price"
    if "prophet_price (Some ts) = Some (price, ts)" "prophet_weight ts = 1"
      "prophet_confidence ts = 1"
    using that by (simp add: all_predictions_def ensemble_price_def total_weight_def)
  show ?thesis using between single single_ts by blast
qed

theorem base_estimate_convex_witness:
  "Min (fst ` set (all_predictions scenario_predictions None)) = 280
   \<and> Max (fst ` set (all_predictions scenario_predictions None)) = 300
   \<and> 280 \<le> ensemble_price (all_predictions scenario_predictions None) 220
   \<and> ensemble_price (all_predictions scenario_predictions None) 220 \<le> 300
   \<and> ensemble_price (all_predictions [(''random_forest'', single_source)] None) 220 = 300"
  using
    base_estimate_convex [where ml = scenario_predictions and prophet = None and retail = 220
      and one = single_source and model_name = "''random_forest''"]
  by (simp add: all_predictions_def scenario_predictions_def prophet_price_def single_source_def)

section \<open>The adjustment factors are bounded\<close>

lemma trend_factor_clamp:
  "0.8 \<le> trends_adjustment_factor (get_trends_adjustment tr)
   \<and> trends_adjustment_factor (get_trends_adjustment tr) \<le> 1.2"
  by (cases tr) (simp_all add: get_trends_adjustment_def Let_def max_def min_def)

lemma social_trend_adjustment_clamp:
  "0.9 \<le> social_trend_adjustment trend_score direction
   \<and> social_trend_adjustment trend_score direction \<le> 1.1"
  by (simp add: social_trend_adjustment_def Let_def max_def min_def)

lemma repository_sentiment_factor:
  "sentiment_adjustment_factor (get_sentiment_adjustment (repository_sentiment_outcome n)) = 1"
  by (simp add: repository_sentiment_outcome_def get_sentiment_adjustment_def
      default_sentiment_def)

text \<open>
  C7 at the interest series 10, 10, 100. The series is rising with a current interest of
  100 and an average of 40, the raw trend factor is 1.3, and \<^verbatim>\<open>get_trends_adjustment\<close>
  clamps it to 1.2: above the bound 1.10 of the claim. The sibling adjustment gives 1.1 for
  the same interest and direction. The sentiment-derived factor of this repository is 1,
  inside [0.85, 1.15].
\<close>

theorem trend_factor_exceeds_range:
  "get_live_interest (Inr interest_surge) =
     \<lparr> interest_current = Some 100, interest_avg = Some 40,
       interest_direction = Some ''rising'' \<rparr>
   \<and> trends_adjustment_factor
       (get_trends_adjustment (Trends_Interest (get_live_interest (Inr interest_surge)))) = 1.2
   \<and> \<not> trends_adjustment_factor
       (get_trends_adjustment (Trends_Interest (get_live_interest (Inr interest_surge)))) \<le> 1.10
   \<and> social_trend_adjustment 100 ''rising'' = 1.1
   \<and> sentiment_adjustment_factor
       (get_sentiment_adjustment (repository_sentiment_outcome 5)) = 1"
  by (simp add: get_live_interest_def interest_surge_def get_trends_adjustment_def Let_def
      np_mean_def py_round_def social_trend_adjustment_def repository_sentiment_outcome_def
      get_sentiment_adjustment_def default_sentiment_def)

section \<open>The confidence of the time-series source\<close>

lemma time_series_confidence_constant:
  "predict_with_prophet sneaker_name outcome = Some pp \<Longrightarrow>
     prophet_confidence pp = 0.85 \<and> prophet_weight pp = 0.20"
  by (auto simp add: predict_with_prophet_def split: if_splits history_outcome.splits)

text \<open>
  C9 at a history of ten data points with a thirty-day forecast. The adapter promotes the
  last forecast point (250) as the 30-day price, records the ten data points, and gives the
  confidence 0.85; the sibling adapter gives 0.70 for the same history.
\<close>

theorem time_series_confidence_thin_history:
  "map_option prophet_confidence
     (predict_with_prophet ''Adidas Yeezy Boost 350 V2 Beluga'' (History_Result thin_history)) =
     Some 0.85
   \<and> map_option historical_data_points
     (predict_with_prophet ''Adidas Yeezy Boost 350 V2 Beluga'' (History_Result thin_history)) =
     Some 10
   \<and> map_option predicted_price_30d
     (predict_with_prophet ''Adidas Yeezy Boost 350 V2 Beluga'' (History_Result thin_history)) =
     Some (Some 250)
   \<and> get_time_series_forecast_confidence thin_history = 0.70"
  by (simp add: predict_with_prophet_def thin_history_def
      get_time_series_forecast_confidence_def)

section \<open>The plausibility filter\<close>

lemma retail_est_prepare_features:
  "retail_est (prepare_features d ctx) = request_retail_price d"
  by (simp add: retail_est_def prepare_features_def)

lemma tree_emitted:
  assumes "tree_prediction p model_name conf w ty fs = Inr preds"
    and "candidate p model_name fs = Some v"
  shows "preds =
     [(model_name,
       \<lparr> predicted_price = max 0 v, confidence = conf, weight = w, model_type = ty \<rparr>)]"
  using assms
  by (auto simp add: tree_prediction_def candidate_def split: option.splits sum.splits)

lemma tree_keys:
  assumes "tree_prediction p model_name conf w ty fs = Inr preds"
  shows "fst ` set preds \<subseteq> {model_name}"
  using assms
  by (auto simp add: tree_prediction_def split: option.splits sum.splits)

lemma linear_keys:
  assumes "linear_prediction p model_name conf w ty fs scaled = Inr preds"
  shows "fst ` set preds \<subseteq> {model_name}"
  using assms
  by (auto simp add: linear_prediction_def split: option.splits sum.splits if_splits)

lemma linear_emitted:
  assumes "linear_prediction p model_name conf w ty fs scaled = Inr preds"
    and "candidate p model_name scaled = Some v"
  shows "emitted model_name preds \<longleftrightarrow> 0 < v \<and> v < retail_est fs * 5"
  using assms
  by (auto simp add: linear_prediction_def candidate_def emitted_def
      split: option.splits sum.splits if_splits)

lemma linear_prediction_raises:
  "isl (linear_prediction p model_name conf w ty fs scaled) \<longleftrightarrow> raises p model_name scaled"
  by (auto simp add: linear_prediction_def raises_def split: option.splits sum.splits)

lemma ridge_filtered:
  assumes "scaler p = Some sc" and "sc fs = Inr scaled"
    and "candidate p ''ridge_regression'' scaled = Some v"
  shows "emitted ''ridge_regression'' (linear_predictions p fs) \<longleftrightarrow>
           0 < v \<and> v < retail_est fs * 5"
proof -
  obtain ridge where ridge:
    "linear_prediction p ''ridge_regression'' 0.75 0.10 ''Regularized Linear'' fs scaled =
       Inr ridge"
    using assms(3)
    by (auto simp add: linear_prediction_def candidate_def split: option.splits sum.splits)
  have r: "emitted ''ridge_regression'' ridge \<longleftrightarrow> 0 < v \<and> v < retail_est fs * 5"
    using linear_emitted [OF ridge assms(3)] .
  show ?thesis
  proof (cases "linear_prediction p ''linear_regression'' 0.72 0.05 ''Linear Baseline'' fs scaled")
    case (Inl e)
    then show ?thesis using assms(1,2) ridge r by (simp add: linear_predictions_def)
  next
    case (Inr lr)
    have "\<not> emitted ''ridge_regression'' lr"
      using linear_keys [OF Inr] by (auto simp add: emitted_def)
    then show ?thesis
      using assms(1,2) ridge r Inr by (auto simp add: linear_predictions_def emitted_def)
  qed
qed

lemma linear_filtered:
  assumes "scaler p = Some sc" and "sc fs = Inr scaled"
    and "\<not> raises p ''ridge_regression'' scaled"
    and "candidate p ''linear_regression'' scaled = Some v"
  shows "emitted ''linear_regression'' (linear_predictions p fs) \<longleftrightarrow>
           0 < v \<and> v < retail_est fs * 5"
proof -
  obtain ridge where ridge:
    "linear_prediction p ''ridge_regression'' 0.75 0.10 ''Regularized Linear'' fs scaled =
       Inr ridge"
    using assms(3)
      linear_prediction_raises [of p "''ridge_regression''" "0.75" "0.10"
        "''Regularized Linear''" fs scaled]
    by (cases "linear_prediction p ''ridge_regression'' 0.75 0.10 ''Regularized Linear'' fs scaled")
      auto
  obtain lr where lr:
    "linear_prediction p ''linear_regression'' 0.72 0.05 ''Linear Baseline'' fs scaled = Inr lr"
    using assms(4)
    by (auto simp add: linear_prediction_def candidate_def split: option.splits sum.splits)
  have l: "emitted ''linear_regression'' lr \<longleftrightarrow> 0 < v \<and> v < retail_est fs * 5"
    using linear_emitted [OF lr assms(4)] .
  have "\<not> emitted ''linear_regression'' ridge"
    using linear_keys [OF ridge] by (auto simp add: emitted_def)
  then show ?thesis
    using assms(1,2) ridge lr l by (auto simp add: linear_predictions_def emitted_def)
qed

lemma trees_emitted:
  assumes "predict_with_ml_models p fs = Inr ml"
  shows "(candidate p ''random_forest'' fs = Some v \<longrightarrow>
            emitted ''random_forest'' ml
            \<and> emitted_price ''random_forest'' (predict_with_ml_models p fs) = Some (max 0 v))
       \<and> (candidate p ''gradient_boosting'' fs = Some v \<longrightarrow>
            emitted ''gradient_boosting'' ml
            \<and> emitted_price ''gradient_boosting'' (predict_with_ml_models p fs) = Some (max 0 v))"
proof -
  obtain rf gb where
    rf: "tree_prediction p ''random_forest'' 0.93 0.35 ''Tree-based Ensemble'' fs = Inr rf"
    and gb: "tree_prediction p ''gradient_boosting'' 0.91 0.30 ''Boosted Trees'' fs = Inr gb"
    and ml: "ml = rf @ gb @ linear_predictions p fs"
    using assms by (auto simp add: predict_with_ml_models_def split: sum.splits)
  have whole: "predict_with_ml_models p fs = Inr (rf @ gb @ linear_predictions p fs)"
    using assms ml by simp
  have first: "emitted ''random_forest'' ml
      \<and> emitted_price ''random_forest'' (predict_with_ml_models p fs) = Some (max 0 v)"
    if "candidate p ''random_forest'' fs = Some v"
    using tree_emitted [OF rf that] by (simp add: whole ml emitted_def emitted_price_def)
  have no_gb: "map_of rf ''gradient_boosting'' = None"
    using tree_keys [OF rf] by (auto simp add: map_of_eq_None_iff)
  have second: "emitted ''gradient_boosting'' ml
      \<and> emitted_price ''gradient_boosting'' (predict_with_ml_models p fs) = Some (max 0 v)"
    if "candidate p ''gradient_boosting'' fs = Some v"
    using tree_emitted [OF gb that] no_gb
    by (simp add: whole ml emitted_def emitted_price_def map_add_def)
  show ?thesis using first second by blast
qed

lemma emitted_linear_part:
  assumes "predict_with_ml_models p fs = Inr ml"
    and "model_name \<noteq> ''random_forest''" and "model_name \<noteq> ''gradient_boosting''"
  shows "emitted model_name ml \<longleftrightarrow> emitted model_name (linear_predictions p fs)"
proof -
  obtain rf gb where
    rf: "tree_prediction p ''random_forest'' 0.93 0.35 ''Tree-based Ensemble'' fs = Inr rf"
    and gb: "tree_prediction p ''gradient_boosting'' 0.91 0.30 ''Boosted Trees'' fs = Inr gb"
    and ml: "ml = rf @ gb @ linear_predictions p fs"
    using assms(1) by (auto simp add: predict_with_ml_models_def split: sum.splits)
  show ?thesis
    using tree_keys [OF rf] tree_keys [OF gb] assms(2,3)
    by (auto simp add: ml emitted_def)
qed

lemma overpriced_predictor_predictions:
  "predict_with_ml_models overpriced_predictor (prepare_features example_request example_context) =
     Inr overpriced_predictions"
  by (simp add: predict_with_ml_models_def overpriced_predictor_def load_models_def store_def
      tree_prediction_def constant_model_def example_request_def request_retail_price_def
      linear_predictions_def linear_prediction_def identity_scaler_def Let_def retail_est_def
      prepare_features_def overpriced_predictions_def)

text \<open>
  C4, as the code has it. The plausibility filter guards the two linear models only. The
  candidate of the ridge model, and that of the linear-regression model when the ridge model
  did not raise, is emitted exactly when it is positive and below retail_price * 5: a
  candidate equal to 5 * retail_price is excluded and 4.999 * retail_price is included.
  The candidates of the random-forest and gradient-boosting models are never rejected: each
  is emitted with the price max(0, candidate).
\<close>

theorem plausibility_filter_linear_models:
  assumes "predict_with_ml_models p (prepare_features d ctx) = Inr ml"
    and "scaler p = Some sc" and "sc (prepare_features d ctx) = Inr scaled"
  shows "(candidate p ''ridge_regression'' scaled = Some v \<longrightarrow>
           (emitted ''ridge_regression'' ml \<longleftrightarrow> 0 < v \<and> v < 5 * request_retail_price d))
    \<and> (\<not> raises p ''ridge_regression'' scaled
         \<and> candidate p ''linear_regression'' scaled = Some v \<longrightarrow>
           (emitted ''linear_regression'' ml \<longleftrightarrow> 0 < v \<and> v < 5 * request_retail_price d))
    \<and> (candidate p ''ridge_regression'' scaled = Some (5 * request_retail_price d) \<longrightarrow>
           \<not> emitted ''ridge_regression'' ml)
    \<and> (0 < request_retail_price d
         \<and> candidate p ''ridge_regression'' scaled = Some (4.999 * request_retail_price d) \<longrightarrow>
           emitted ''ridge_regression'' ml)
    \<and> (\<not> raises p ''ridge_regression'' scaled
         \<and> candidate p ''linear_regression'' scaled = Some (5 * request_retail_price d) \<longrightarrow>
           \<not> emitted ''linear_regression'' ml)
    \<and> (0 < request_retail_price d \<and> \<not> raises p ''ridge_regression'' scaled
         \<and> candidate p ''linear_regression'' scaled = Some (4.999 * request_retail_price d) \<longrightarrow>
           emitted ''linear_regression'' ml)
    \<and> (candidate p ''random_forest'' (prepare_features d ctx) = Some v \<longrightarrow>
           emitted ''random_forest'' ml
           \<and> emitted_price ''random_forest''
               (predict_with_ml_models p (prepare_features d ctx)) = Some (max 0 v))
    \<and> (candidate p ''gradient_boosting'' (prepare_features d ctx) = Some v \<longrightarrow>
           emitted ''gradient_boosting'' ml
           \<and> emitted_price ''gradient_boosting''
               (predict_with_ml_models p (prepare_features d ctx)) = Some (max 0 v))"
proof -
  have ridge: "emitted ''ridge_regression'' ml \<longleftrightarrow> 0 < u \<and> u < 5 * request_retail_price d"
    if "candidate p ''ridge_regression'' scaled = Some u" for u
    using ridge_filtered [OF assms(2,3) that]
      emitted_linear_part [OF assms(1), of "''ridge_regression''"]
    by (simp add: mult.commute retail_est_prepare_features)
  have linear: "emitted ''linear_regression'' ml \<longleftrightarrow> 0 < u \<and> u < 5 * request_retail_price d"
    if "\<not> raises p ''ridge_regression'' scaled"
      "candidate p ''linear_regression'' scaled = Some u" for u
    using linear_filtered [OF assms(2,3) that]
      emitted_linear_part [OF assms(1), of "''linear_regression''"]
    by (simp add: mult.commute retail_est_prepare_features)
  have ridge_at_bound: "\<not> emitted ''ridge_regression'' ml"
    if "candidate p ''ridge_regression'' scaled = Some (5 * request_retail_price d)"
    using ridge [OF that] by simp
  have ridge_below_bound: "emitted ''ridge_regression'' ml"
    if "0 < request_retail_price d"
      "candidate p ''ridge_regression'' scaled = Some (4.999 * request_retail_price d)"
    using ridge [OF that(2)] that(1) by simp
  have linear_at_bound: "\<not> emitted ''linear_regression'' ml"
    if "\<not> raises p ''ridge_regression'' scaled"
      "candidate p ''linear_regression'' scaled = Some (5 * request_retail_price d)"
    using linear [OF that] by simp
  have linear_below_bound: "emitted ''linear_regression'' ml"
    if "0 < request_retail_price d" "\<not> raises p ''ridge_regression'' scaled"
      "candidate p ''linear_regression'' scaled = Some (4.999 * request_retail_price d)"
    using linear [OF that(2,3)] that(1) by simp
  show ?thesis
    using ridge [of v] linear [of v] ridge_at_bound ridge_below_bound linear_at_bound
      linear_below_bound trees_emitted [OF assms(1), of v]
    by blast
qed

theorem plausibility_filter_linear_models_witness:
  "candidate overpriced_predictor ''ridge_regression''
     (prepare_features example_request example_context) = Some 1100
   \<and> \<not> emitted ''ridge_regression'' overpriced_predictions
   \<and> \<not> raises overpriced_predictor ''ridge_regression''
         (prepare_features example_request example_context)
   \<and> candidate overpriced_predictor ''linear_regression''
     (prepare_features example_request example_context) = Some 1099.78
   \<and> emitted ''linear_regression'' overpriced_predictions
   \<and> request_retail_price example_request = 220"
  using
    plausibility_filter_linear_models [OF overpriced_predictor_predictions,
      of identity_scaler "prepare_features example_request example_context" 1100]
    plausibility_filter_linear_models [OF overpriced_predictor_predictions,
      of identity_scaler "prepare_features example_request example_context" "1099.78"]
  by (simp add: overpriced_predictor_def load_models_def store_def identity_scaler_def
      candidate_def raises_def constant_model_def example_request_def request_retail_price_def
      Let_def)

text \<open>
  For a retail price of 220, a random-forest candidate of 1500 exceeds 5 * 220 and is
  emitted, and a gradient-boosting candidate of -5 is emitted with the price 0.
\<close>

theorem plausibility_filter_tree_counterexample:
  "emitted_price ''random_forest''
     (predict_with_ml_models overpriced_predictor
        (prepare_features example_request example_context)) = Some 1500
   \<and> request_retail_price example_request * 5 < 1500
   \<and> emitted_price ''gradient_boosting''
     (predict_with_ml_models overpriced_predictor
        (prepare_features example_request example_context)) = Some 0"
  by (simp add: emitted_price_def predict_with_ml_models_def overpriced_predictor_def
      load_models_def store_def tree_prediction_def constant_model_def example_request_def
      request_retail_price_def linear_predictions_def linear_prediction_def identity_scaler_def
      Let_def)

section \<open>No price-bearing source\<close>

lemma load_models_trees:
  assumes "loaded (load_models files)"
  shows "random_forest_model files \<noteq> None \<and> gradient_boosting_model files \<noteq> None
    \<and> models (load_models files) ''random_forest'' = random_forest_model files
    \<and> models (load_models files) ''gradient_boosting'' = gradient_boosting_model files"
  using assms
  by (auto simp add: load_models_def store_def Let_def split: option.splits if_splits)

lemma loaded_predictor_emits:
  assumes "loaded (load_models files)"
    and "predict_with_ml_models (load_models files) fs = Inr ml"
  shows "emitted ''random_forest'' ml \<and> emitted ''gradient_boosting'' ml"
proof -
  from load_models_trees [OF assms(1)]
  obtain rf gb where rf: "models (load_models files) ''random_forest'' = Some rf"
    and gb: "models (load_models files) ''gradient_boosting'' = Some gb"
    by auto
  show ?thesis
    using assms(2) rf gb
    by (auto simp add: predict_with_ml_models_def tree_prediction_def emitted_def
        split: sum.splits)
qed

lemma priced_response:
  assumes "response_price (predict_best_price p d ctx sig include_sentiment include_trends
             include_groq) = Some price"
  shows "loaded p \<and> (\<exists>ml. predict_with_ml_models p (prepare_features d ctx) = Inr ml)"
  using assms
  by (auto simp add: predict_best_price_def response_price_def Let_def
      split: if_splits sum.splits)

text \<open>
  C2, as the code has it. A predictor is what \<^verbatim>\<open>load_models\<close> builds. When no regression
  model survives, the request fails with success = false and carries no numeric price
  field, rather than succeeding with a fallback estimate: if the models are not loaded, the
  request fails with the error message "Models not loaded. Run train_model.py first."; if a
  tree model raises, it fails with the exception's message; and a request that returns a
  price has both tree models among its regression sources. The failure carries an error
  message and no error kind: NoComputablePrice does not occur.
\<close>

theorem no_source_request_fails:
  "(\<not> loaded (load_models files) \<longrightarrow>
      predict_best_price (load_models files) d ctx sig include_sentiment include_trends
        include_groq = Failure ''Models not loaded. Run train_model.py first.''
      \<and> response_price
          (predict_best_price (load_models files) d ctx sig include_sentiment include_trends
             include_groq) = None)
   \<and> (loaded (load_models files)
       \<and> predict_with_ml_models (load_models files) (prepare_features d ctx) = Inl e \<longrightarrow>
      predict_best_price (load_models files) d ctx sig include_sentiment include_trends
        include_groq = Failure e
      \<and> response_price
          (predict_best_price (load_models files) d ctx sig include_sentiment include_trends
             include_groq) = None)
   \<and> (loaded (load_models files)
       \<and> predict_with_ml_models (load_models files) (prepare_features d ctx) = Inr ml \<longrightarrow>
      emitted ''random_forest'' ml \<and> emitted ''gradient_boosting'' ml)
   \<and> (response_price
         (predict_best_price (load_models files) d ctx sig include_sentiment include_trends
            include_groq) = Some price \<longrightarrow>
      (\<exists>sources.
         predict_with_ml_models (load_models files) (prepare_features d ctx) = Inr sources
         \<and> emitted ''random_forest'' sources \<and> emitted ''gradient_boosting'' sources))"
proof -
  let ?p = "load_models files"
  have unloaded:
    "predict_best_price ?p d ctx sig include_sentiment include_trends include_groq =
       Failure ''Models not loaded. Run train_model.py first.''
     \<and> response_price
         (predict_best_price ?p d ctx sig include_sentiment include_trends include_groq) = None"
    if "\<not> loaded ?p"
    using that by (simp add: predict_best_price_def response_price_def)
  have raised:
    "predict_best_price ?p d ctx sig include_sentiment include_trends include_groq = Failure e
     \<and> response_price
         (predict_best_price ?p d ctx sig include_sentiment include_trends include_groq) = None"
    if "loaded ?p" "predict_with_ml_models ?p (prepare_features d ctx) = Inl e"
    using that by (simp add: predict_best_price_def response_price_def Let_def)
  have trees: "emitted ''random_forest'' ml \<and> emitted ''gradient_boosting'' ml"
    if "loaded ?p" "predict_with_ml_models ?p (prepare_features d ctx) = Inr ml"
    using loaded_predictor_emits [OF that] .
  have priced: "\<exists>sources.
         predict_with_ml_models ?p (prepare_features d ctx) = Inr sources
         \<and> emitted ''random_forest'' sources \<and> emitted ''gradient_boosting'' sources"
    if "response_price
         (predict_best_price ?p d ctx sig include_sentiment include_trends include_groq) =
          Some price"
  proof -
    from priced_response [OF that]
    obtain sources where l: "loaded ?p"
      and s: "predict_with_ml_models ?p (prepare_features d ctx) = Inr sources"
      by auto
    show ?thesis
      using s loaded_predictor_emits [OF l s] by blast
  qed
  show ?thesis
    using unloaded raised trees priced by blast
qed

theorem no_source_request_fails_witness:
  "\<not> loaded (load_models missing_files)
   \<and> predict_best_price (load_models missing_files) example_request example_context
       quiet_signals True True True = Failure ''Models not loaded. Run train_model.py first.''
   \<and> response_price
       (predict_best_price (load_models missing_files) example_request example_context
          quiet_signals True True True) = None
   \<and> loaded failing_predictor
   \<and> predict_best_price failing_predictor example_request example_context quiet_signals
       True True True = Failure ''X has 9 features, but the model expects 8''
   \<and> loaded example_predictor
   \<and> emitted ''random_forest'' scenario_predictions
   \<and> emitted ''gradient_boosting'' scenario_predictions"
proof -
  have unloaded: "\<not> loaded (load_models missing_files)"
    by (simp add: load_models_def missing_files_def)
  note without_files =
    no_source_request_fails [where files = missing_files and d = example_request
      and ctx = example_context and sig = quiet_signals and include_sentiment = True
      and include_trends = True and include_groq = True and e = "[]" and ml = "[]"
      and price = 0]
  have not_loaded:
    "predict_best_price (load_models missing_files) example_request example_context
       quiet_signals True True True = Failure ''Models not loaded. Run train_model.py first.''
     \<and> response_price
       (predict_best_price (load_models missing_files) example_request example_context
          quiet_signals True True True) = None"
    using without_files unloaded by blast
  have failing_loaded: "loaded failing_predictor"
    by (simp add: failing_predictor_def load_models_def store_def Let_def)
  have failing_raises:
    "predict_with_ml_models failing_predictor
       (prepare_features example_request example_context) =
       Inl ''X has 9 features, but the model expects 8''"
    by (simp add: failing_predictor_def load_models_def store_def Let_def
        predict_with_ml_models_def tree_prediction_def)
  note with_raise =
    no_source_request_fails [where d = example_request
      and ctx = example_context and sig = quiet_signals and include_sentiment = True
      and include_trends = True and include_groq = True
      and e = "''X has 9 features, but the model expects 8''" and ml = "[]" and price = 0
      and files = "\<lparr> random_forest_model =
                        Some (\<lambda>fs. Inl ''X has 9 features, but the model expects 8''),
                      gradient_boosting_model = Some (constant_model 280),
                      linear_regression_model = None, ridge_regression_model = None,
                      encoders_load = True, scaler_file = Some identity_scaler,
                      metadata_load = True \<rparr>",
      folded failing_predictor_def]
  have raised:
    "predict_best_price failing_predictor example_request example_context quiet_signals
       True True True = Failure ''X has 9 features, but the model expects 8''"
    using with_raise failing_loaded failing_raises by blast
  note with_trees =
    no_source_request_fails [where d = example_request
      and ctx = example_context and sig = quiet_signals and include_sentiment = True
      and include_trends = True and include_groq = True
      and e = "[]" and ml = scenario_predictions and price = 0
      and files = "\<lparr> random_forest_model = Some (constant_model 300),
                      gradient_boosting_model = Some (constant_model 280),
                      linear_regression_model = None, ridge_regression_model = None,
                      encoders_load = True, scaler_file = Some identity_scaler,
                      metadata_load = True \<rparr>",
      folded example_predictor_def]
  have trees:
    "emitted ''random_forest'' scenario_predictions
     \<and> emitted ''gradient_boosting'' scenario_predictions"
    using with_trees example_predictor_loaded example_predictor_predictions by blast
  show ?thesis
    using unloaded not_loaded failing_loaded raised example_predictor_loaded trees by blast
qed

text \<open>
  The predictor that \<^verbatim>\<open>load_models\<close> leaves when no model file can be read has no
  regression source. With no forecast either, its request fails with the message above,
  which is not NoComputablePrice.
\<close>

theorem no_source_counterexample:
  "predict_best_price (load_models missing_files) example_request example_context
       quiet_signals True True True = Failure ''Models not loaded. Run train_model.py first.''
   \<and> predict_best_price (load_models missing_files) example_request example_context
       quiet_signals True True True \<noteq> Failure ''NoComputablePrice''
   \<and> predict_with_prophet (request_sneaker_name example_request)
       (history_signal quiet_signals) = None"
  by (simp add: predict_best_price_def load_models_def missing_files_def quiet_signals_def
      predict_with_prophet_def)

end
